theory Spec2Isabelle
  imports Complex_Main
begin

section \<open>JavaScript values\<close>

text \<open>
  A JavaScript string is modelled as a \<^typ>\<open>string\<close>: one \<^typ>\<open>char\<close> per UTF-16 code
  unit, for texts whose code units are below 256. \<open>length\<close> is the source's \<open>.length\<close>.
  The field names \<open>id\<close>, \<open>text\<close>, \<open>paragraph\<close>, \<open>notes\<close> and \<open>y\<close> of the source are reserved
  words or too short to stay free here and carry a prefix or suffix.
\<close>

text \<open>
  The class \<open>\s\<close> of a regular expression and the characters \<open>String.prototype.trim\<close>
  strips are the same set (WhiteSpace and LineTerminator); below 256 these are
  TAB, LF, VT, FF, CR, SPACE and NBSP.
\<close>

definition isSpace :: "char \<Rightarrow> bool" where
  "isSpace c = (c \<in> {CHR 0x09, CHR 0x0A, CHR 0x0B, CHR 0x0C, CHR 0x0D, CHR 0x20, CHR 0xA0})"

text \<open>\<open>s.trim()\<close>\<close>

definition trim :: "string \<Rightarrow> string" where
  "trim s = rev (dropWhile isSpace (rev (dropWhile isSpace s)))"

text \<open>
  \<open>s.replace(/\s+/g, " ")\<close>: every maximal run of whitespace becomes one space. The flag
  says whether the previous character belonged to a run already replaced.
\<close>

fun replaceWs :: "bool \<Rightarrow> string \<Rightarrow> string" where
  "replaceWs inRun [] = []"
| "replaceWs inRun (c # cs) =
     (if isSpace c then (if inRun then replaceWs True cs else CHR '' '' # replaceWs True cs)
      else c # replaceWs False cs)"

text \<open>
  \<open>s.split(/\s+/)\<close>: the pieces between maximal runs of whitespace, empty pieces at the
  ends included (\<open>" a".split(/\s+/)\<close> is \<open>["", "a"]\<close>).
\<close>

fun splitWs :: "bool \<Rightarrow> string \<Rightarrow> string \<Rightarrow> string list" where
  "splitWs inRun piece [] = [piece]"
| "splitWs inRun piece (c # cs) =
     (if isSpace c then (if inRun then splitWs True piece cs else piece # splitWs True [] cs)
      else splitWs False (piece @ [c]) cs)"

text \<open>\<open>/[A-Za-z]/\<close> and \<open>/[a-z]/\<close>, by code unit (\<open>A\<close> is 65, \<open>a\<close> is 97).\<close>

definition isAlpha :: "char \<Rightarrow> bool" where
  "isAlpha c = ((65 \<le> (of_char c :: nat) \<and> (of_char c :: nat) \<le> 90) \<or>
                (97 \<le> (of_char c :: nat) \<and> (of_char c :: nat) \<le> 122))"

definition isLower :: "char \<Rightarrow> bool" where
  "isLower c = (97 \<le> (of_char c :: nat) \<and> (of_char c :: nat) \<le> 122)"

text \<open>Decimal rendering of a non-negative integer inside a template literal.\<close>

definition digitChar :: "nat \<Rightarrow> char" where
  "digitChar d = char_of (48 + d)"

fun showNat :: "nat \<Rightarrow> string" where
  "showNat n = (if n < 10 then [digitChar n] else showNat (n div 10) @ [digitChar (n mod 10)])"

declare showNat.simps [simp del]


text \<open>
  A JavaScript number: the finite doubles as the rationals they denote (the comparisons,
  \<open>Math.min\<close> and \<open>Math.max\<close> used on them are exact), and the three special values.
\<close>

datatype jsnum = NaN | PosInf | NegInf | Fin rat

text \<open>
  A value produced by \<open>JSON.parse\<close>. An object is the association list of its own
  properties, read with \<open>map_of\<close>.
\<close>

datatype json =
    JNull
  | JBool bool
  | JNum jsnum
  | JStr string
  | JArr "json list"
  | JObj "(string \<times> json) list"

text \<open>
  What a \<open>throw\<close> carries. \<open>Error\<close>, \<open>TypeError\<close>, \<open>SyntaxError\<close> hold their message;
  \<open>AbortError\<close> is \<open>new DOMException("Aborted", "AbortError")\<close>; \<open>HttpError\<close> (backend.ts)
  holds its status and message; \<open>NonError\<close> is a thrown value that is not an \<open>Error\<close>.
  The text of an engine-made \<open>TypeError\<close> differs between engines; the model writes V8's.
\<close>

datatype thrown =
    Error string
  | TypeError string
  | SyntaxError string
  | AbortError
  | HttpError int string
  | NonError



text \<open>
  \<open>value.key\<close> on a value that is not \<open>null\<close>: \<open>None\<close> is \<open>undefined\<close>. None of the keys
  the source reads is a property of a string, number, boolean or array.
\<close>

fun getProp :: "json \<Rightarrow> string \<Rightarrow> json option" where
  "getProp (JObj kvs) key = map_of kvs key"
| "getProp _ key = None"

text \<open>\<open>value?.key\<close>: \<open>undefined\<close> when the value is \<open>undefined\<close> or \<open>null\<close>.\<close>

fun optProp :: "json option \<Rightarrow> string \<Rightarrow> json option" where
  "optProp None key = None"
| "optProp (Some JNull) key = None"
| "optProp (Some v) key = getProp v key"

text \<open>\<open>Boolean(value)\<close>, and the truthiness of a value in a condition.\<close>

fun toBoolean :: "json option \<Rightarrow> bool" where
  "toBoolean None = False"
| "toBoolean (Some JNull) = False"
| "toBoolean (Some (JBool b)) = b"
| "toBoolean (Some (JNum NaN)) = False"
| "toBoolean (Some (JNum (Fin r))) = (r \<noteq> 0)"
| "toBoolean (Some (JNum _)) = True"
| "toBoolean (Some (JStr s)) = (s \<noteq> [])"
| "toBoolean (Some (JArr _)) = True"
| "toBoolean (Some (JObj _)) = True"

text \<open>\<open>array.map(f)\<close> where \<open>f\<close> may throw: the first throw ends the map.\<close>

fun mapThrowing :: "('a \<Rightarrow> thrown + 'b) \<Rightarrow> 'a list \<Rightarrow> thrown + 'b list" where
  "mapThrowing f [] = Inr []"
| "mapThrowing f (x # xs) =
     (case f x of
        Inl e \<Rightarrow> Inl e
      | Inr v \<Rightarrow> (case mapThrowing f xs of Inl e \<Rightarrow> Inl e | Inr vs \<Rightarrow> Inr (v # vs)))"

section \<open>Data model (src/src/types.ts)\<close>

record ParagraphCandidate =
  cand_id :: string
  pageNumber :: nat
  cand_text :: string

record ExtractionRow =
  pdf_name :: string
  paragraph_txt :: string
  paragraph_index :: nat
  page_number :: "nat option"
  section_heading :: string
  row_notes :: string
  confidence :: "rat option"

record KeepDecision =
  kd_id :: string
  kd_section_heading :: "string option"
  kd_note :: "string option"
  kd_confidence :: "rat option"
  kd_possible_boilerplate :: bool

record ChunkDecision =
  cd_keep :: "KeepDecision list"
  cd_warnings :: "string list"



text \<open>
  \<open>ExtractionQualitySettings\<close> as \<open>sanitizeQualitySettings\<close> returns it, which is how every
  caller passes it on: the three numbers are integers (\<open>Math.floor\<close>).
\<close>

record ExtractionQualitySettings =
  minWordsPerParagraph :: int
  minAlphaCharsPerParagraph :: int
  shortParagraphWordThreshold :: int
  requireSentenceTerminatorForShortParagraphs :: bool

section \<open>Chunker (src/src/lib/extractor.ts, chunkParagraphs)\<close>

text \<open>\<open>const serializedLength = paragraph.text.length + 120\<close>\<close>

definition serializedLength :: "ParagraphCandidate \<Rightarrow> nat" where
  "serializedLength paragraph = length (cand_text paragraph) + 120"

text \<open>
  The \<open>for (const paragraph of paragraphs)\<close> loop with its three mutable variables
  \<open>chunks\<close>, \<open>currentChunk\<close>, \<open>currentLength\<close> as arguments; the empty list of remaining
  paragraphs is the code after the loop (\<open>if (currentChunk.length > 0) chunks.push\<close>).
\<close>

fun chunkLoop :: "nat \<Rightarrow> ParagraphCandidate list list \<Rightarrow> ParagraphCandidate list \<Rightarrow> nat
    \<Rightarrow> ParagraphCandidate list \<Rightarrow> ParagraphCandidate list list" where
  "chunkLoop maxChars chunks currentChunk currentLength [] =
     (if length currentChunk > 0 then chunks @ [currentChunk] else chunks)"
| "chunkLoop maxChars chunks currentChunk currentLength (paragraph # rest) =
     (if length currentChunk > 0 \<and> currentLength + serializedLength paragraph > maxChars
      then chunkLoop maxChars (chunks @ [currentChunk]) [paragraph]
             (0 + serializedLength paragraph) rest
      else chunkLoop maxChars chunks (currentChunk @ [paragraph])
             (currentLength + serializedLength paragraph) rest)"

definition chunkParagraphs :: "ParagraphCandidate list \<Rightarrow> nat \<Rightarrow> ParagraphCandidate list list" where
  "chunkParagraphs paragraphs maxChars = chunkLoop maxChars [] [] 0 paragraphs"

text \<open>The default argument \<open>maxChars = 7000\<close>, which every caller in the repository uses.\<close>

definition defaultMaxChars :: nat where
  "defaultMaxChars = 7000"

text \<open>The estimated serialized size of a chunk: the sum the loop accumulates.\<close>

definition chunkSize :: "ParagraphCandidate list \<Rightarrow> nat" where
  "chunkSize c = sum_list (map serializedLength c)"

section \<open>Quality gate (src/src/lib/extractor.ts, isLikelyCodingParagraph)\<close>

text \<open>\<open>text.replace(/\s+/g, " ").trim()\<close>\<close>

definition normalizeParagraph :: "string \<Rightarrow> string" where
  "normalizeParagraph s = trim (replaceWs False s)"

text \<open>\<open>normalized.split(/\s+/).filter(Boolean)\<close>\<close>

definition wordsOf :: "string \<Rightarrow> string list" where
  "wordsOf normalized = filter (\<lambda>w. w \<noteq> []) (splitWs False [] normalized)"

text \<open>\<open>(normalized.match(/[A-Za-z]/g) ?? []).length\<close>\<close>

definition alphaCharsOf :: "string \<Rightarrow> nat" where
  "alphaCharsOf normalized = length (filter isAlpha normalized)"

text \<open>
  \<open>/[.!?]["')\]]?$/.test(normalized)\<close>, read from the end of the string (no \<open>m\<close> flag, so
  \<open>$\<close> is the end of the input): the last character is a terminator, or it is a closing
  quote or bracket and the one before it is a terminator.
\<close>

definition isTerminator :: "char \<Rightarrow> bool" where
  "isTerminator c = (c \<in> {CHR ''.'', CHR ''!'', CHR ''?''})"

definition isCloser :: "char \<Rightarrow> bool" where
  "isCloser c = (c \<in> {CHR 0x22, CHR 0x27, CHR '')'', CHR '']''})"

definition hasSentenceEnding :: "string \<Rightarrow> bool" where
  "hasSentenceEnding normalized =
     (case rev normalized of
        [] \<Rightarrow> False
      | c # before \<Rightarrow>
          isTerminator c \<or>
          (isCloser c \<and> (case before of [] \<Rightarrow> False | d # _ \<Rightarrow> isTerminator d)))"

definition isLikelyCodingParagraph :: "string \<Rightarrow> ExtractionQualitySettings \<Rightarrow> bool" where
  "isLikelyCodingParagraph txt quality =
     (let normalized = normalizeParagraph txt in
      if normalized = [] then False
      else let words = wordsOf normalized in
        if int (length words) < minWordsPerParagraph quality then False
        else let alphaChars = alphaCharsOf normalized in
          if int alphaChars < minAlphaCharsPerParagraph quality then False
          else if \<not> requireSentenceTerminatorForShortParagraphs quality then True
          else if \<not> hasSentenceEnding normalized \<and>
                  int (length words) < shortParagraphWordThreshold quality then False
          else True)"

section \<open>Quality settings (settings.ts, the second document of src/src/lib/extractor.ts)\<close>


definition DEFAULT_QUALITY_SETTINGS :: ExtractionQualitySettings where
  "DEFAULT_QUALITY_SETTINGS =
     \<lparr>minWordsPerParagraph = 6, minAlphaCharsPerParagraph = 18,
      shortParagraphWordThreshold = 12, requireSentenceTerminatorForShortParagraphs = True\<rparr>"




section \<open>Decision normalizer (src/src/lib/extractor.ts)\<close>

text \<open>
  \<open>clampConfidence\<close>: \<open>undefined\<close> unless the value is a number other than \<open>NaN\<close>, else
  \<open>Math.max(0, Math.min(1, value))\<close>.
\<close>

fun clampConfidence :: "json option \<Rightarrow> rat option" where
  "clampConfidence (Some (JNum NaN)) = None"
| "clampConfidence (Some (JNum PosInf)) = Some (max 0 1)"
| "clampConfidence (Some (JNum NegInf)) = Some 0"
| "clampConfidence (Some (JNum (Fin v))) = Some (max 0 (min 1 v))"
| "clampConfidence _ = None"

text \<open>\<open>typeof v === "string" ? v.trim() : undefined\<close>\<close>

fun trimmedString :: "json option \<Rightarrow> string option" where
  "trimmedString (Some (JStr s)) = Some (trim s)"
| "trimmedString _ = None"

text \<open>
  The callback of \<open>parsed.keep.map\<close>: \<open>Inr None\<close> is the \<open>null\<close> it returns for an element
  to drop. Reading \<open>record.id\<close> of an element that is \<open>null\<close> throws a \<open>TypeError\<close>.
\<close>

definition normalizeKeepItem :: "json \<Rightarrow> thrown + KeepDecision option" where
  "normalizeKeepItem item =
     (if item = JNull then Inl (TypeError ''Cannot read properties of null (reading 'id')'')
      else case getProp item ''id'' of
        Some (JStr s) \<Rightarrow>
          if trim s = [] then Inr None
          else Inr (Some \<lparr>kd_id = s,
                 kd_section_heading = trimmedString (getProp item ''section_heading''),
                 kd_note = trimmedString (getProp item ''note''),
                 kd_confidence = clampConfidence (getProp item ''confidence''),
                 kd_possible_boilerplate = toBoolean (getProp item ''possible_boilerplate'')\<rparr>)
      | _ \<Rightarrow> Inr None)"

text \<open>\<open>.filter((item) => item !== null)\<close>\<close>

definition dropNulls :: "'a option list \<Rightarrow> 'a list" where
  "dropNulls xs = map the (filter (\<lambda>x. x \<noteq> None) xs)"

text \<open>
  \<open>Array.isArray(parsed.warnings) ? parsed.warnings.map(trim or "").filter(Boolean) : []\<close>
\<close>

fun warningEntry :: "json \<Rightarrow> string" where
  "warningEntry (JStr s) = trim s"
| "warningEntry _ = []"

fun normalizeWarnings :: "json option \<Rightarrow> string list" where
  "normalizeWarnings (Some (JArr entries)) = filter (\<lambda>w. w \<noteq> []) (map warningEntry entries)"
| "normalizeWarnings _ = []"

definition normalizeDecision :: "json \<Rightarrow> thrown + ChunkDecision" where
  "normalizeDecision raw =
     (if raw = JNull then Inl (TypeError ''Cannot read properties of null (reading 'keep')'')
      else case getProp raw ''keep'' of
        Some (JArr items) \<Rightarrow>
          (case mapThrowing normalizeKeepItem items of
             Inl e \<Rightarrow> Inl e
           | Inr mapped \<Rightarrow>
               Inr \<lparr>cd_keep = dropNulls mapped,
                    cd_warnings = normalizeWarnings (getProp raw ''warnings'')\<rparr>)
      | _ \<Rightarrow> Inl (Error ''Missing keep array in model JSON response.''))"




section \<open>Row assembler (src/src/lib/extractor.ts, dedupeRowsWithinPdf)\<close>

text \<open>\<open>row.paragraph.replace(/\s+/g, " ").trim()\<close>\<close>

definition rowKey :: "ExtractionRow \<Rightarrow> string" where
  "rowKey row = trim (replaceWs False (paragraph_txt row))"

text \<open>
  The \<open>for (const row of rows)\<close> loop: \<open>seen\<close> is the set it mutates, the result is the
  list \<open>deduped\<close> it builds.
\<close>

fun dedupeLoop :: "string set \<Rightarrow> ExtractionRow list \<Rightarrow> ExtractionRow list" where
  "dedupeLoop seen [] = []"
| "dedupeLoop seen (row # rest) =
     (let key = rowKey row in
      if key = [] then row # dedupeLoop seen rest
      else if key \<in> seen then dedupeLoop seen rest
      else row # dedupeLoop (insert key seen) rest)"

text \<open>
  \<open>deduped.map((row, index) => ({ ...row, paragraph_index: index + 1 }))\<close>, with the index
  of the first element as argument.
\<close>

fun reindexFrom :: "nat \<Rightarrow> ExtractionRow list \<Rightarrow> ExtractionRow list" where
  "reindexFrom index [] = []"
| "reindexFrom index (row # rest) =
     row\<lparr>paragraph_index := index + 1\<rparr> # reindexFrom (index + 1) rest"

definition dedupeRowsWithinPdf :: "ExtractionRow list \<Rightarrow> ExtractionRow list" where
  "dedupeRowsWithinPdf rows = reindexFrom 0 (dedupeLoop {} rows)"

section \<open>Fallback rows (src/src/lib/extractor.ts, fallbackRowsFromChunk)\<close>


section \<open>Retry runtime (retry.ts, the first document of src/unnamed/part_000)\<close>






section \<open>Segmenter (pdf.ts, src/unnamed/part_002): lines to paragraphs\<close>

record Line =
  line_y :: rat
  line_text :: string

text \<open>\<open>input.replace(/\s+/g, " ").trim()\<close>\<close>

definition normalizeSpaces :: "string \<Rightarrow> string" where
  "normalizeSpaces input = trim (replaceWs False input)"

text \<open>\<open>paragraph.endsWith("-") && /^[a-z]/.test(line)\<close>, then \<open>paragraph.slice(0, -1)\<close>.\<close>

definition appendLine :: "string \<Rightarrow> string \<Rightarrow> string" where
  "appendLine paragraph line =
     (if paragraph = [] then line
      else if last paragraph = CHR ''-'' \<and> (case line of [] \<Rightarrow> False | c # _ \<Rightarrow> isLower c)
      then butlast paragraph @ line
      else paragraph @ '' '' @ line)"






section \<open>Cross-page repeat filter (pdf.ts, src/unnamed/part_002, removeGlobalRepeats)\<close>

definition normalizeForDuplicateCheck :: "string \<Rightarrow> string" where
  "normalizeForDuplicateCheck s = trim (replaceWs False s)"

text \<open>The first loop: \<open>keyToPages\<close> maps a key to the set of pages it was seen on.\<close>

fun collectPages :: "(string \<rightharpoonup> nat set) \<Rightarrow> ParagraphCandidate list \<Rightarrow> (string \<rightharpoonup> nat set)" where
  "collectPages keyToPages [] = keyToPages"
| "collectPages keyToPages (candidate # rest) =
     (let key = normalizeForDuplicateCheck (cand_text candidate) in
      if length key < 8 then collectPages keyToPages rest
      else let pages = (case keyToPages key of Some s \<Rightarrow> s | None \<Rightarrow> {}) in
        collectPages (keyToPages(key \<mapsto> insert (pageNumber candidate) pages)) rest)"

text \<open>\<open>/[.!?]$/.test(key)\<close>\<close>

definition endsWithTerminator :: "string \<Rightarrow> bool" where
  "endsWithTerminator key = (key \<noteq> [] \<and> isTerminator (last key))"

definition repeatedAcrossPages :: "(string \<rightharpoonup> nat set) \<Rightarrow> string \<Rightarrow> bool" where
  "repeatedAcrossPages keyToPages key =
     (case keyToPages key of
        None \<Rightarrow> False
      | Some pageSet \<Rightarrow> card pageSet \<ge> 3 \<and> length key < 220 \<and> \<not> endsWithTerminator key)"

record RepeatFilterResult =
  rf_paragraphs :: "ParagraphCandidate list"
  rf_warnings :: "string list"

definition removeGlobalRepeats :: "ParagraphCandidate list \<Rightarrow> RepeatFilterResult" where
  "removeGlobalRepeats candidates =
     (let keyToPages = collectPages Map.empty candidates;
          kept = filter (\<lambda>candidate. \<not> repeatedAcrossPages keyToPages
                           (normalizeForDuplicateCheck (cand_text candidate))) candidates;
          removedByRepeat = length candidates - length kept
      in \<lparr>rf_paragraphs = kept,
          rf_warnings =
            (if removedByRepeat > 0
             then [''Removed '' @ showNat removedByRepeat @
                   '' repeated short paragraphs likely to be template/header/footer text.'']
             else [])\<rparr>)"


section \<open>Rows of a vision page (the extractor with batch mode, src/unnamed/part_000)\<close>

text \<open>
  The \<open>onLog\<close> and \<open>onProgress\<close> callbacks, and the counters that only feed log lines
  (\<open>droppedByQuality\<close>, \<open>removedDuplicates\<close>), are left out of the model below: they do not
  touch the rows.
\<close>






section \<open>Vision fallback, live mode (processPdfWithVisionFallback)\<close>





section \<open>Batch manifest (src/unnamed/part_000)\<close>








section \<open>Batch reconciliation (src/unnamed/part_000, importOpenAiBatchResultFiles)\<close>





text \<open>\<open>n >= 400\<close> on a number\<close>

fun atLeast400 :: "jsnum \<Rightarrow> bool" where
  "atLeast400 (Fin r) = (r \<ge> 400)"
| "atLeast400 PosInf = True"
| "atLeast400 _ = False"



text \<open>
  The test at the head of the \<open>try\<close> block: \<open>!line?.response?.body || typeof
  line.response.status_code !== "number" || line.response.status_code >= 400\<close>. The result
  is the body of a usable line.
\<close>

definition usableBody :: "json option \<Rightarrow> json option" where
  "usableBody line =
     (let response = optProp line ''response''; body = optProp response ''body'' in
      if \<not> toBoolean body then None
      else case optProp response ''status_code'' of
        Some (JNum n) \<Rightarrow> if atLeast400 n then None else body
      | _ \<Rightarrow> None)"











section \<open>Notions used in the proofs\<close>

text \<open>
  A list of rows that the loop of \<open>dedupeRowsWithinPdf\<close>, started with the set \<open>seen\<close>,
  keeps whole: no key that is not empty is in \<open>seen\<close> or occurs twice.
\<close>

fun keysFresh :: "string set \<Rightarrow> ExtractionRow list \<Rightarrow> bool" where
  "keysFresh seen [] = True"
| "keysFresh seen (row # rest) =
     (if rowKey row = [] then keysFresh seen rest
      else rowKey row \<notin> seen \<and> keysFresh (insert (rowKey row) seen) rest)"














definition joinLines :: "Line list \<Rightarrow> string" where
  "joinLines g = foldl appendLine [] (map line_text g)"



















section \<open>Sample inputs\<close>

text \<open>A candidate whose text is \<open>n\<close> copies of one character.\<close>

definition sampleCandidate :: "string \<Rightarrow> nat \<Rightarrow> char \<Rightarrow> nat \<Rightarrow> ParagraphCandidate" where
  "sampleCandidate ident page c n = \<lparr>cand_id = ident, pageNumber = page, cand_text = replicate n c\<rparr>"

text \<open>A row as the pipeline makes it before deduplication (index 0).\<close>

definition sampleRow :: "string \<Rightarrow> string \<Rightarrow> ExtractionRow" where
  "sampleRow name txt =
     \<lparr>pdf_name = name, paragraph_txt = txt, paragraph_index = 0, page_number = Some 1,
      section_heading = [], row_notes = [], confidence = None\<rparr>"

























text \<open>The sentence of scenario A of the specification.\<close>

definition scenarioA :: string where
  "scenarioA = ''New research confirms that coastal erosion accelerated significantly over the past decade.''"


section \<open>Chunker: proofs\<close>

lemma chunkLoop_concat:
  "concat (chunkLoop m chunks cur len ps) = concat chunks @ cur @ ps"
  by (induction ps arbitrary: chunks cur len) auto

lemma chunkLoop_nonempty:
  "[] \<notin> set chunks \<Longrightarrow> [] \<notin> set (chunkLoop m chunks cur len ps)"
  by (induction ps arbitrary: chunks cur len) auto

lemma chunkLoop_boundaries:
  "map (\<lambda>p. length (cand_text p)) ps = map (\<lambda>p. length (cand_text p)) qs \<Longrightarrow>
   map length chunks = map length chunks' \<Longrightarrow> length cur = length cur' \<Longrightarrow>
   map length (chunkLoop m chunks cur len ps) = map length (chunkLoop m chunks' cur' len qs)"
proof (induction ps arbitrary: qs chunks chunks' cur cur' len)
  case Nil
  then show ?case by auto
next
  case (Cons p ps)
  then obtain q qs' where qs: "qs = q # qs'" by (cases qs) auto
  with Cons.prems have sz: "serializedLength p = serializedLength q"
    and rest: "map (\<lambda>p. length (cand_text p)) ps = map (\<lambda>p. length (cand_text p)) qs'"
    by (auto simp: serializedLength_def)
  show ?case
    using Cons.prems(2,3) Cons.IH[OF rest] sz qs by auto
qed

lemma chunkLoop_budget:
  "\<forall>c \<in> set chunks. 2 \<le> length c \<longrightarrow> chunkSize c \<le> m \<Longrightarrow>
   len = chunkSize cur \<Longrightarrow> (2 \<le> length cur \<longrightarrow> chunkSize cur \<le> m) \<Longrightarrow>
   \<forall>c \<in> set (chunkLoop m chunks cur len ps). 2 \<le> length c \<longrightarrow> chunkSize c \<le> m"
proof (induction ps arbitrary: chunks cur len)
  case Nil
  then show ?case by auto
next
  case (Cons p ps)
  show ?case
  proof (cases "length cur > 0 \<and> len + serializedLength p > m")
    case True
    have "\<forall>c \<in> set (chunkLoop m (chunks @ [cur]) [p] (0 + serializedLength p) ps).
            2 \<le> length c \<longrightarrow> chunkSize c \<le> m"
      using Cons.prems by (intro Cons.IH) (auto simp: chunkSize_def)
    with True show ?thesis by simp
  next
    case False
    have "\<forall>c \<in> set (chunkLoop m chunks (cur @ [p]) (len + serializedLength p) ps).
            2 \<le> length c \<longrightarrow> chunkSize c \<le> m"
      using Cons.prems False by (intro Cons.IH) (auto simp: chunkSize_def)
    with False show ?thesis by auto
  qed
qed

lemma chunkLoop_over_budget_single:
  "\<forall>c \<in> set (chunkLoop m chunks cur len ps). 2 \<le> length c \<longrightarrow> chunkSize c \<le> m \<Longrightarrow>
   [] \<notin> set (chunkLoop m chunks cur len ps) \<Longrightarrow>
   c \<in> set (chunkLoop m chunks cur len ps) \<Longrightarrow> m < chunkSize c \<Longrightarrow>
   \<exists>p. c = [p] \<and> m < serializedLength p"
proof -
  assume a: "\<forall>c \<in> set (chunkLoop m chunks cur len ps). 2 \<le> length c \<longrightarrow> chunkSize c \<le> m"
    and ne: "[] \<notin> set (chunkLoop m chunks cur len ps)"
    and c: "c \<in> set (chunkLoop m chunks cur len ps)" and big: "m < chunkSize c"
  from a c big have "length c < 2" by fastforce
  moreover from ne c have "c \<noteq> []" by auto
  ultimately obtain p where "c = [p]" by (cases c) auto
  with big show ?thesis by (auto simp: chunkSize_def)
qed

lemma chunkParagraphs_empty: "chunkParagraphs [] m = []"
  by (simp add: chunkParagraphs_def)

text \<open>
  C1. With the default budget of 7000, the chunker produces no empty chunk; the chunks
  concatenated in order are the input list, so no candidate is split, dropped or moved;
  the empty input gives no chunk at all; and the chunk boundaries (the lengths of the
  chunks, in order) are a function of the text lengths of the input alone, so the same
  input always gives the same boundaries.
\<close>

theorem chunkParagraphs_partition:
  "[] \<notin> set (chunkParagraphs ps defaultMaxChars) \<and>
   concat (chunkParagraphs ps defaultMaxChars) = ps \<and>
   chunkParagraphs [] defaultMaxChars = [] \<and>
   (\<forall>qs. map (\<lambda>p. length (cand_text p)) qs = map (\<lambda>p. length (cand_text p)) ps \<longrightarrow>
      map length (chunkParagraphs qs defaultMaxChars) = map length (chunkParagraphs ps defaultMaxChars))"
proof (intro conjI allI impI)
  show "[] \<notin> set (chunkParagraphs ps defaultMaxChars)"
    unfolding chunkParagraphs_def by (rule chunkLoop_nonempty) simp
  show "concat (chunkParagraphs ps defaultMaxChars) = ps"
    by (simp add: chunkParagraphs_def chunkLoop_concat)
  show "chunkParagraphs [] defaultMaxChars = []"
    by (rule chunkParagraphs_empty)
next
  fix qs :: "ParagraphCandidate list"
  assume "map (\<lambda>p. length (cand_text p)) qs = map (\<lambda>p. length (cand_text p)) ps"
  then show "map length (chunkParagraphs qs defaultMaxChars) = map length (chunkParagraphs ps defaultMaxChars)"
    unfolding chunkParagraphs_def by (rule chunkLoop_boundaries) simp_all
qed

text \<open>
  Three candidates of 3000 characters each: the third does not fit with the first two
  (3 * 3120 > 7000), and candidates with other texts of the same lengths are cut at the
  same places.
\<close>

lemma serializedLength_sample [simp]: "serializedLength (sampleCandidate i pg c n) = n + 120"
  by (simp add: serializedLength_def sampleCandidate_def)

theorem chunkParagraphs_partition_witness:
  "chunkParagraphs [sampleCandidate ''p1-1'' 1 (CHR ''a'') 3000, sampleCandidate ''p1-2'' 1 (CHR ''b'') 3000,
                    sampleCandidate ''p2-1'' 2 (CHR ''c'') 3000] defaultMaxChars
     = [[sampleCandidate ''p1-1'' 1 (CHR ''a'') 3000, sampleCandidate ''p1-2'' 1 (CHR ''b'') 3000],
        [sampleCandidate ''p2-1'' 2 (CHR ''c'') 3000]] \<and>
   [] \<notin> set (chunkParagraphs [sampleCandidate ''p1-1'' 1 (CHR ''a'') 3000, sampleCandidate ''p1-2'' 1 (CHR ''b'') 3000,
                    sampleCandidate ''p2-1'' 2 (CHR ''c'') 3000] defaultMaxChars) \<and>
   map length (chunkParagraphs [sampleCandidate ''q1'' 5 (CHR ''x'') 3000, sampleCandidate ''q2'' 6 (CHR ''y'') 3000,
                    sampleCandidate ''q3'' 7 (CHR ''z'') 3000] defaultMaxChars) = [2, 1]"
proof -
  let ?ps = "[sampleCandidate ''p1-1'' 1 (CHR ''a'') 3000, sampleCandidate ''p1-2'' 1 (CHR ''b'') 3000,
              sampleCandidate ''p2-1'' 2 (CHR ''c'') 3000]"
  let ?qs = "[sampleCandidate ''q1'' 5 (CHR ''x'') 3000, sampleCandidate ''q2'' 6 (CHR ''y'') 3000,
              sampleCandidate ''q3'' 7 (CHR ''z'') 3000]"
  have run: "chunkParagraphs ?ps defaultMaxChars =
      [[sampleCandidate ''p1-1'' 1 (CHR ''a'') 3000, sampleCandidate ''p1-2'' 1 (CHR ''b'') 3000],
       [sampleCandidate ''p2-1'' 2 (CHR ''c'') 3000]]"
    by (simp add: chunkParagraphs_def defaultMaxChars_def)
  have same: "map (\<lambda>p. length (cand_text p)) ?qs = map (\<lambda>p. length (cand_text p)) ?ps"
    by (simp add: sampleCandidate_def)
  from chunkParagraphs_partition [of ?ps]
  have ne: "[] \<notin> set (chunkParagraphs ?ps defaultMaxChars)"
    and bd: "map length (chunkParagraphs ?qs defaultMaxChars) = map length (chunkParagraphs ?ps defaultMaxChars)"
    using same by blast+
  from bd run have "map length (chunkParagraphs ?qs defaultMaxChars) = [2, 1]" by simp
  with run ne show ?thesis by blast
qed

text \<open>
  C10. With the default budget, a chunk of two or more paragraphs has an estimated size
  (the sum of text length + 120 over its paragraphs) of at most 7000; a chunk over the
  budget is a single paragraph whose own estimated size is over the budget.
\<close>

theorem chunkParagraphs_budget:
  "c \<in> set (chunkParagraphs ps defaultMaxChars) \<Longrightarrow>
   (2 \<le> length c \<longrightarrow> chunkSize c \<le> defaultMaxChars) \<and>
   (defaultMaxChars < chunkSize c \<longrightarrow> (\<exists>p. c = [p] \<and> defaultMaxChars < serializedLength p))"
proof -
  assume c: "c \<in> set (chunkParagraphs ps defaultMaxChars)"
  have all: "\<forall>c \<in> set (chunkLoop defaultMaxChars [] [] 0 ps). 2 \<le> length c \<longrightarrow> chunkSize c \<le> defaultMaxChars"
    by (rule chunkLoop_budget) (simp_all add: chunkSize_def)
  have ne: "[] \<notin> set (chunkLoop defaultMaxChars [] [] 0 ps)"
    by (rule chunkLoop_nonempty) simp
  from c have c': "c \<in> set (chunkLoop defaultMaxChars [] [] 0 ps)"
    by (simp add: chunkParagraphs_def)
  from all c' have "2 \<le> length c \<longrightarrow> chunkSize c \<le> defaultMaxChars" by blast
  moreover have "defaultMaxChars < chunkSize c \<longrightarrow> (\<exists>p. c = [p] \<and> defaultMaxChars < serializedLength p)"
    using chunkLoop_over_budget_single [OF all ne c'] by blast
  ultimately show ?thesis by blast
qed

text \<open>
  A candidate of 8000 characters between two short ones: the long one is a chunk of its
  own, over the budget; a chunk of two short ones stays within it.
\<close>

theorem chunkParagraphs_budget_witness:
  "[sampleCandidate ''p1-2'' 1 (CHR ''b'') 8000]
     \<in> set (chunkParagraphs [sampleCandidate ''p1-1'' 1 (CHR ''a'') 100, sampleCandidate ''p1-2'' 1 (CHR ''b'') 8000,
                             sampleCandidate ''p2-1'' 2 (CHR ''c'') 200, sampleCandidate ''p2-2'' 2 (CHR ''d'') 300]
              defaultMaxChars) \<and>
   defaultMaxChars < chunkSize [sampleCandidate ''p1-2'' 1 (CHR ''b'') 8000] \<and>
   defaultMaxChars < serializedLength (sampleCandidate ''p1-2'' 1 (CHR ''b'') 8000)"
proof -
  let ?ps = "[sampleCandidate ''p1-1'' 1 (CHR ''a'') 100, sampleCandidate ''p1-2'' 1 (CHR ''b'') 8000,
              sampleCandidate ''p2-1'' 2 (CHR ''c'') 200, sampleCandidate ''p2-2'' 2 (CHR ''d'') 300]"
  let ?c = "[sampleCandidate ''p1-2'' 1 (CHR ''b'') 8000]"
  have mem: "?c \<in> set (chunkParagraphs ?ps defaultMaxChars)"
    by (simp add: chunkParagraphs_def defaultMaxChars_def)
  have big: "defaultMaxChars < chunkSize ?c"
    by (simp add: chunkSize_def defaultMaxChars_def)
  from chunkParagraphs_budget [OF mem] big
  obtain p where "?c = [p]" and "defaultMaxChars < serializedLength p" by blast
  then have "defaultMaxChars < serializedLength (sampleCandidate ''p1-2'' 1 (CHR ''b'') 8000)" by simp
  with mem big show ?thesis by blast
qed

section \<open>Row assembler: proofs\<close>

lemma rowKey_paragraph_index [simp]: "rowKey (row\<lparr>paragraph_index := i\<rparr>) = rowKey row"
  by (simp add: rowKey_def)

lemma dedupeLoop_keysFresh: "keysFresh seen (dedupeLoop seen rows)"
proof (induction rows arbitrary: seen)
  case Nil
  show ?case by simp
next
  case (Cons row rows)
  show ?case
  proof (cases "rowKey row = []")
    case True
    with Cons.IH [of seen] show ?thesis by simp
  next
    case False
    show ?thesis
    proof (cases "rowKey row \<in> seen")
      case True
      with False Cons.IH [of seen] show ?thesis by simp
    next
      case notin: False
      with False Cons.IH [of "insert (rowKey row) seen"] show ?thesis by simp
    qed
  qed
qed

lemma keysFresh_dedupeLoop: "keysFresh seen rows \<Longrightarrow> dedupeLoop seen rows = rows"
  by (induction rows arbitrary: seen) (auto split: if_splits)

lemma keysFresh_reindexFrom: "keysFresh seen (reindexFrom i rows) = keysFresh seen rows"
  by (induction rows arbitrary: seen i) auto

lemma reindexFrom_reindexFrom: "reindexFrom i (reindexFrom j rows) = reindexFrom i rows"
  by (induction rows arbitrary: i j) auto

lemma length_reindexFrom [simp]: "length (reindexFrom i rows) = length rows"
  by (induction rows arbitrary: i) auto

lemma paragraph_index_reindexFrom:
  "map paragraph_index (reindexFrom i rows) = [Suc i ..< Suc i + length rows]"
proof (induction rows arbitrary: i)
  case Nil
  show ?case by simp
next
  case (Cons row rows)
  have "[Suc i ..< Suc i + length (row # rows)] = Suc i # [Suc (Suc i) ..< Suc (Suc i) + length rows]"
    by (simp add: upt_rec)
  with Cons.IH [of "Suc i"] show ?case by simp
qed

lemma dedupe_fixpoint:
  "dedupeLoop {} (dedupeRowsWithinPdf rows) = dedupeRowsWithinPdf rows"
  unfolding dedupeRowsWithinPdf_def
  by (rule keysFresh_dedupeLoop) (simp add: keysFresh_reindexFrom dedupeLoop_keysFresh)

text \<open>
  C8. Deduplicating twice is deduplicating once: the second pass returns the list it is
  given, so it removes no row and leaves every \<open>paragraph_index\<close> as it is; and after a
  pass the indices of the surviving rows are 1, 2, ..., in order.
\<close>

theorem dedupeRowsWithinPdf_idempotent:
  "dedupeRowsWithinPdf (dedupeRowsWithinPdf rows) = dedupeRowsWithinPdf rows \<and>
   length (dedupeRowsWithinPdf (dedupeRowsWithinPdf rows)) = length (dedupeRowsWithinPdf rows) \<and>
   map paragraph_index (dedupeRowsWithinPdf rows) = [1 ..< Suc (length (dedupeRowsWithinPdf rows))]"
proof -
  have idem: "dedupeRowsWithinPdf (dedupeRowsWithinPdf rows) = dedupeRowsWithinPdf rows"
  proof -
    have "dedupeRowsWithinPdf (dedupeRowsWithinPdf rows)
            = reindexFrom 0 (dedupeLoop {} (dedupeRowsWithinPdf rows))"
      by (simp add: dedupeRowsWithinPdf_def)
    also have "\<dots> = reindexFrom 0 (dedupeRowsWithinPdf rows)"
      by (simp only: dedupe_fixpoint)
    also have "\<dots> = dedupeRowsWithinPdf rows"
      by (simp add: dedupeRowsWithinPdf_def reindexFrom_reindexFrom)
    finally show ?thesis .
  qed
  have dense: "map paragraph_index (dedupeRowsWithinPdf rows) = [1 ..< Suc (length (dedupeRowsWithinPdf rows))]"
    by (simp add: dedupeRowsWithinPdf_def paragraph_index_reindexFrom)
  from idem dense show ?thesis by simp
qed

lemma rowKey_sample_plain: "rowKey (sampleRow ''a.pdf'' ''Same text'') = ''Same text''"
  by (simp add: rowKey_def sampleRow_def trim_def isSpace_def)

lemma rowKey_sample_spaced: "rowKey (sampleRow ''a.pdf'' ''Same   text '') = ''Same text''"
  by (simp add: rowKey_def sampleRow_def trim_def isSpace_def)

lemma rowKey_sample_blank: "rowKey (sampleRow ''a.pdf'' '' '') = []"
  by (simp add: rowKey_def sampleRow_def trim_def isSpace_def)

text \<open>
  Four rows, two of them with the same text up to whitespace and two blank: the first
  pass drops the repeat and keeps both blank rows, the second pass changes nothing.
\<close>

theorem dedupeRowsWithinPdf_idempotent_witness:
  "dedupeRowsWithinPdf [sampleRow ''a.pdf'' ''Same text'', sampleRow ''a.pdf'' '' '',
                        sampleRow ''a.pdf'' ''Same   text '', sampleRow ''a.pdf'' '' '']
     = [(sampleRow ''a.pdf'' ''Same text'')\<lparr>paragraph_index := 1\<rparr>,
        (sampleRow ''a.pdf'' '' '')\<lparr>paragraph_index := 2\<rparr>,
        (sampleRow ''a.pdf'' '' '')\<lparr>paragraph_index := 3\<rparr>] \<and>
   dedupeRowsWithinPdf
     [(sampleRow ''a.pdf'' ''Same text'')\<lparr>paragraph_index := 1\<rparr>,
      (sampleRow ''a.pdf'' '' '')\<lparr>paragraph_index := 2\<rparr>,
      (sampleRow ''a.pdf'' '' '')\<lparr>paragraph_index := 3\<rparr>]
     = [(sampleRow ''a.pdf'' ''Same text'')\<lparr>paragraph_index := 1\<rparr>,
        (sampleRow ''a.pdf'' '' '')\<lparr>paragraph_index := 2\<rparr>,
        (sampleRow ''a.pdf'' '' '')\<lparr>paragraph_index := 3\<rparr>]"
proof -
  let ?rows = "[sampleRow ''a.pdf'' ''Same text'', sampleRow ''a.pdf'' '' '',
                sampleRow ''a.pdf'' ''Same   text '', sampleRow ''a.pdf'' '' '']"
  have once: "dedupeRowsWithinPdf ?rows
     = [(sampleRow ''a.pdf'' ''Same text'')\<lparr>paragraph_index := 1\<rparr>,
        (sampleRow ''a.pdf'' '' '')\<lparr>paragraph_index := 2\<rparr>,
        (sampleRow ''a.pdf'' '' '')\<lparr>paragraph_index := 3\<rparr>]"
    by (simp add: dedupeRowsWithinPdf_def rowKey_sample_plain rowKey_sample_spaced rowKey_sample_blank)
  from dedupeRowsWithinPdf_idempotent [of ?rows]
  have "dedupeRowsWithinPdf (dedupeRowsWithinPdf ?rows) = dedupeRowsWithinPdf ?rows" by blast
  with once show ?thesis by simp
qed

section \<open>Cross-page repeat filter: proofs\<close>

text \<open>
  C7. Three candidates whose normalized text is "Cookie Policy" (13 characters, no
  terminal punctuation), on pages 1, 4 and 7: the cross-page repeat filter keeps none.
\<close>

theorem removeGlobalRepeats_cookie_policy:
  assumes "normalizeForDuplicateCheck (cand_text c1) = ''Cookie Policy''"
    and "normalizeForDuplicateCheck (cand_text c2) = ''Cookie Policy''"
    and "normalizeForDuplicateCheck (cand_text c3) = ''Cookie Policy''"
    and "pageNumber c1 = 1" and "pageNumber c2 = 4" and "pageNumber c3 = 7"
  shows "rf_paragraphs (removeGlobalRepeats [c1, c2, c3]) = []"
proof -
  have pages: "collectPages Map.empty [c1, c2, c3] ''Cookie Policy'' = Some {7, 4, 1}"
    using assms by simp
  have "repeatedAcrossPages (collectPages Map.empty [c1, c2, c3]) ''Cookie Policy''"
    unfolding repeatedAcrossPages_def pages
    by (simp add: endsWithTerminator_def isTerminator_def)
  with assms(1-3) show ?thesis
    by (simp add: removeGlobalRepeats_def Let_def)
qed

lemma normalize_cookie_plain: "normalizeForDuplicateCheck ''Cookie Policy'' = ''Cookie Policy''"
  by (simp add: normalizeForDuplicateCheck_def trim_def isSpace_def)

lemma normalize_cookie_spaced: "normalizeForDuplicateCheck ''  Cookie   Policy '' = ''Cookie Policy''"
  by (simp add: normalizeForDuplicateCheck_def trim_def isSpace_def)

text \<open>The scenario with the text as a footer would carry it, once with stray whitespace.\<close>

theorem removeGlobalRepeats_cookie_policy_witness:
  "rf_paragraphs (removeGlobalRepeats
     [\<lparr>cand_id = ''p1-3'', pageNumber = 1, cand_text = ''Cookie Policy''\<rparr>,
      \<lparr>cand_id = ''p4-5'', pageNumber = 4, cand_text = ''  Cookie   Policy ''\<rparr>,
      \<lparr>cand_id = ''p7-2'', pageNumber = 7, cand_text = ''Cookie Policy''\<rparr>]) = []"
  by (rule removeGlobalRepeats_cookie_policy)
     (simp_all add: normalize_cookie_plain normalize_cookie_spaced)

section \<open>Quality gate: proofs\<close>

text \<open>
  C3. Settings that differ from \<open>q\<close> only by a higher \<open>minWordsPerParagraph\<close> or a higher
  \<open>minAlphaCharsPerParagraph\<close> (or both) reject every text that \<open>q\<close> rejects: raising a
  threshold never makes the gate accept a text it rejected.
\<close>

theorem isLikelyCodingParagraph_monotone:
  assumes "minWordsPerParagraph q \<le> w'"
    and "minAlphaCharsPerParagraph q \<le> a'"
    and "\<not> isLikelyCodingParagraph txt q"
  shows "\<not> isLikelyCodingParagraph txt
           (q\<lparr>minWordsPerParagraph := w', minAlphaCharsPerParagraph := a'\<rparr>)"
proof
  let ?q' = "q\<lparr>minWordsPerParagraph := w', minAlphaCharsPerParagraph := a'\<rparr>"
  let ?n = "normalizeParagraph txt"
  assume acc: "isLikelyCodingParagraph txt ?q'"
  then have nonempty: "?n \<noteq> []"
    by (auto simp: isLikelyCodingParagraph_def Let_def split: if_splits)
  from acc nonempty have w: "\<not> int (length (wordsOf ?n)) < w'"
    by (auto simp: isLikelyCodingParagraph_def Let_def split: if_splits)
  from acc nonempty w have a: "\<not> int (alphaCharsOf ?n) < a'"
    by (auto simp: isLikelyCodingParagraph_def Let_def split: if_splits)
  from acc nonempty w a
  have short: "requireSentenceTerminatorForShortParagraphs q \<longrightarrow>
      \<not> (\<not> hasSentenceEnding ?n \<and> int (length (wordsOf ?n)) < shortParagraphWordThreshold q)"
    by (auto simp: isLikelyCodingParagraph_def Let_def split: if_splits)
  from w assms(1) have w0: "\<not> int (length (wordsOf ?n)) < minWordsPerParagraph q" by linarith
  from a assms(2) have a0: "\<not> int (alphaCharsOf ?n) < minAlphaCharsPerParagraph q" by linarith
  from nonempty w0 a0 short have "isLikelyCodingParagraph txt q"
    by (auto simp: isLikelyCodingParagraph_def Let_def)
  with assms(3) show False by contradiction
qed

lemma normalizeParagraph_short_note: "normalizeParagraph ''Short note.'' = ''Short note.''"
  by (simp add: normalizeParagraph_def trim_def isSpace_def)

lemma wordsOf_short_note: "wordsOf ''Short note.'' = [''Short'', ''note.'']"
  by (simp add: wordsOf_def isSpace_def)

lemma short_note_rejected: "\<not> isLikelyCodingParagraph ''Short note.'' DEFAULT_QUALITY_SETTINGS"
  by (simp add: isLikelyCodingParagraph_def normalizeParagraph_short_note wordsOf_short_note
      DEFAULT_QUALITY_SETTINGS_def)

text \<open>
  A text of two words, rejected by the default settings (six words at least), stays
  rejected with eight words and twenty letters required.
\<close>

theorem isLikelyCodingParagraph_monotone_witness:
  "\<not> isLikelyCodingParagraph ''Short note.'' DEFAULT_QUALITY_SETTINGS \<and>
   \<not> isLikelyCodingParagraph ''Short note.''
       (DEFAULT_QUALITY_SETTINGS\<lparr>minWordsPerParagraph := 8, minAlphaCharsPerParagraph := 20\<rparr>)"
proof -
  have "\<not> isLikelyCodingParagraph ''Short note.''
       (DEFAULT_QUALITY_SETTINGS\<lparr>minWordsPerParagraph := 8, minAlphaCharsPerParagraph := 20\<rparr>)"
    by (rule isLikelyCodingParagraph_monotone [OF _ _ short_note_rejected])
       (simp_all add: DEFAULT_QUALITY_SETTINGS_def)
  with short_note_rejected show ?thesis by blast
qed

text \<open>
  The gate does accept texts, and a raised threshold does remove some: the sentence of
  scenario A (12 words, 78 letters, a final full stop) passes the default settings and
  fails once 13 words are required.
\<close>

lemma scenarioA_normalized: "normalizeParagraph scenarioA = scenarioA"
  by (simp add: scenarioA_def normalizeParagraph_def trim_def isSpace_def)

lemma scenarioA_words: "length (wordsOf scenarioA) = 12"
  by (simp add: scenarioA_def wordsOf_def isSpace_def)

lemma scenarioA_letters: "alphaCharsOf scenarioA = 78"
  by (simp add: scenarioA_def alphaCharsOf_def isAlpha_def)

lemma scenarioA_nonempty: "scenarioA \<noteq> []"
  by (simp add: scenarioA_def)

lemma scenarioA_ending: "hasSentenceEnding scenarioA"
  by (simp add: scenarioA_def hasSentenceEnding_def isTerminator_def)

lemma scenarioA_accepted: "isLikelyCodingParagraph scenarioA DEFAULT_QUALITY_SETTINGS"
  by (simp add: isLikelyCodingParagraph_def scenarioA_normalized scenarioA_words scenarioA_letters
      scenarioA_nonempty scenarioA_ending DEFAULT_QUALITY_SETTINGS_def)

lemma scenarioA_rejected_when_raised:
  "\<not> isLikelyCodingParagraph scenarioA (DEFAULT_QUALITY_SETTINGS\<lparr>minWordsPerParagraph := 13\<rparr>)"
  by (simp add: isLikelyCodingParagraph_def scenarioA_normalized scenarioA_words scenarioA_nonempty)

section \<open>Retry runtime: proofs\<close>




section \<open>Decision normalizer: proofs\<close>














text \<open>
  An array with a \<open>null\<close> element makes the callback of \<open>map\<close> read a property of \<open>null\<close>:
  the normalizer throws although \<open>keep\<close> is an array.
\<close>

lemma normalizeDecision_null_element:
  "normalizeDecision (JObj [(''keep'', JArr [JNull])])
     = Inl (TypeError ''Cannot read properties of null (reading 'id')'')"
  by (simp add: normalizeDecision_def normalizeKeepItem_def)

section \<open>Segmenter: proofs\<close>


lemma normalizeSpaces_empty [simp]: "normalizeSpaces [] = []"
  by (simp add: normalizeSpaces_def trim_def)

lemma appendLine_empty [simp]: "appendLine [] line = line"
  by (simp add: appendLine_def)


lemma joinLines_single [simp]: "joinLines [line] = line_text line"
  by (simp add: joinLines_def)



















section \<open>Batch reconciliation: proofs\<close>




subsection \<open>Deduplication keeps a document's rows recognisable\<close>











subsection \<open>Every row of a document carries the document's name\<close>









section \<open>Vision fallback: proofs\<close>









section \<open>Batch reconciliation: tasks without a usable result\<close>

lemma usableBody_None [simp]: "usableBody None = None"
  by (simp add: usableBody_def)
















end
